theory Spec2Isabelle
  imports Complex_Main
begin

section \<open>Values exchanged between the services\<close>

text \<open>
  The controller handles schema-less JavaScript values: whatever the gRPC client stub hands
  to the callback is passed on to Express. They are modelled as a datatype of JSON-like
  values; \<open>JUndefined\<close> is JavaScript's \<^verbatim>\<open>undefined\<close>, an object is the list of its
  properties in insertion order. Numbers are IEEE doubles in the source; the controller
  never computes with them, so they are carried as reals.
\<close>

datatype js =
    JUndefined
  | JNull
  | JBool bool
  | JNum real
  | JStr string
  | JArr "js list"
  | JObj "(string \<times> js) list"

text \<open>What a JavaScript evaluation can throw in the code modelled here.\<close>

datatype js_error =
    TypeError string
  | ReferenceError string
  | SyntaxError string
  | NetworkError string

text \<open>
  Property access \<^verbatim>\<open>v.k\<close>: a \<^verbatim>\<open>TypeError\<close> on \<^verbatim>\<open>undefined\<close> and
  \<^verbatim>\<open>null\<close>, the own property of an object when it has one, \<^verbatim>\<open>undefined\<close>
  otherwise. It is used only with the keys \<^verbatim>\<open>products\<close> and \<^verbatim>\<open>value\<close>, which no
  prototype of a primitive or of an array defines.
\<close>

fun get_property :: "js \<Rightarrow> string \<Rightarrow> js_error + js" where
  "get_property JUndefined k = Inl (TypeError k)"
| "get_property JNull k = Inl (TypeError k)"
| "get_property (JObj kvs) k = (case map_of kvs k of Some v \<Rightarrow> Inr v | None \<Rightarrow> Inr JUndefined)"
| "get_property v k = Inr JUndefined"

section \<open>The controller (services/controller/index.js)\<close>

subsection \<open>Express responses\<close>

text \<open>
  The \<^verbatim>\<open>res\<close> object of Express: the status code is 200 until \<^verbatim>\<open>res.status\<close>
  changes it; \<^verbatim>\<open>res.send\<close> and \<^verbatim>\<open>res.json\<close> give the response its body.
\<close>

record response =
  statusCode :: nat
  body :: "js option"

definition res :: response where
  "res = \<lparr>statusCode = 200, body = None\<rparr>"

definition status :: "nat \<Rightarrow> response \<Rightarrow> response" where
  "status code r = r\<lparr>statusCode := code\<rparr>"

definition send :: "js \<Rightarrow> response \<Rightarrow> response" where
  "send v r = r\<lparr>body := Some v\<rparr>"

definition json :: "js \<Rightarrow> response \<Rightarrow> response" where
  "json v r = r\<lparr>body := Some v\<rparr>"

subsection \<open>The gRPC client stubs and the effects of a handler\<close>

text \<open>
  A handler calls a method of one of the two client stubs, \<^verbatim>\<open>inventory\<close> or
  \<^verbatim>\<open>shipping\<close>, with a payload and a callback. The stub invokes the callback once with
  \<^verbatim>\<open>(err, data)\<close>: \<^verbatim>\<open>err\<close> is \<^verbatim>\<open>null\<close> (\<open>None\<close>) or an error object of the
  gRPC library (\<open>Some e\<close>, truthy), whose type \<open>'e\<close> is left open. The backends are a
  function from the call to the arguments of the callback.

  Beyond the response, a handler has two effects: the calls it issues, and what it writes
  with \<^verbatim>\<open>console.error\<close>. Both are recorded in a state that is passed through the
  handler; it holds what earlier requests left there.
\<close>

datatype rpc =
    inventory_SearchAllProducts js
  | shipping_GetShippingRate js
  | inventory_SearchProductByID js

type_synonym 'e reply = "'e option \<times> js"

type_synonym 'e backends = "rpc \<Rightarrow> 'e reply"

record 'e world =
  console :: "'e list"
  calls :: "rpc list"

definition console_error :: "'e \<Rightarrow> 'e world \<Rightarrow> 'e world" where
  "console_error e w = w\<lparr>console := console w @ [e]\<rparr>"

definition invoke :: "'e backends \<Rightarrow> rpc \<Rightarrow> 'e world \<Rightarrow> 'e reply \<times> 'e world" where
  "invoke backends c w = (backends c, w\<lparr>calls := calls w @ [c]\<rparr>)"

text \<open>
  The outcome of a handler: the response it sent, or the error thrown inside the callback
  before any response was sent.
\<close>

type_synonym 'e outcome = "(js_error + response) \<times> 'e world"

subsection \<open>The routes\<close>

text \<open>\<^verbatim>\<open>app.get('/products', ...)\<close>\<close>

definition get_products :: "'e backends \<Rightarrow> 'e world \<Rightarrow> 'e outcome" where
  "get_products backends w =
     (case invoke backends (inventory_SearchAllProducts JNull) w of
        ((err, data), w') \<Rightarrow>
          (case err of
             Some e \<Rightarrow>
               (Inr (send (JObj [(''error'', JStr ''something failed :('')]) (status 500 res)),
                console_error e w')
           | None \<Rightarrow>
               (case get_property data ''products'' of
                  Inl t \<Rightarrow> (Inl t, w')
                | Inr products \<Rightarrow> (Inr (json products res), w'))))"

text \<open>
  \<^verbatim>\<open>app.get('/shipping/:zipcode', ...)\<close>; the argument \<open>zipcode\<close> is
  \<^verbatim>\<open>req.params.zipcode\<close>, the path segment that Express bound to the parameter.
\<close>

definition get_shipping :: "'e backends \<Rightarrow> string \<Rightarrow> 'e world \<Rightarrow> 'e outcome" where
  "get_shipping backends zipcode w =
     (case invoke backends (shipping_GetShippingRate (JObj [(''zipcode'', JStr zipcode)])) w of
        ((err, data), w') \<Rightarrow>
          (case err of
             Some e \<Rightarrow>
               (Inr (send (JObj [(''error'', JStr ''something failed :('')]) (status 500 res)),
                console_error e w')
           | None \<Rightarrow>
               (case get_property data ''value'' of
                  Inl t \<Rightarrow> (Inl t, w')
                | Inr v \<Rightarrow>
                    (Inr (json (JObj [(''cep'', JStr zipcode), (''value'', v)]) res), w'))))"

text \<open>The requests that the two routes of the controller match, and their dispatch.\<close>

datatype request =
    GET_products
  | GET_shipping string

fun app :: "'e backends \<Rightarrow> request \<Rightarrow> 'e world \<Rightarrow> 'e outcome" where
  "app backends GET_products w = get_products backends w"
| "app backends (GET_shipping zipcode) w = get_shipping backends zipcode w"

text \<open>The call that the handler of a request issues.\<close>

fun backend_call :: "request \<Rightarrow> rpc" where
  "backend_call GET_products = inventory_SearchAllProducts JNull"
| "backend_call (GET_shipping zipcode) =
     shipping_GetShippingRate (JObj [(''zipcode'', JStr zipcode)])"

text \<open>Backends that give one and the same reply to every call, for the concrete cases below.\<close>

definition replying :: "'e reply \<Rightarrow> 'e backends" where
  "replying r c = r"

text \<open>The one error response of the controller.\<close>

definition something_failed :: response where
  "something_failed =
     \<lparr>statusCode = 500, body = Some (JObj [(''error'', JStr ''something failed :('')])\<rparr>"

section \<open>The inventory service and the route of its new operation (README, task 1)\<close>

text \<open>
  The messages of \<^verbatim>\<open>proto/inventory.proto\<close> as the README declares them. The field
  \<^verbatim>\<open>id\<close> is written \<open>id'\<close>. Inside the service the ids are numbers on both sides
  of \<^verbatim>\<open>==\<close> (an \<^verbatim>\<open>int32\<close> field and a number of the catalog), so the comparison
  is equality of integers.
\<close>

record Payload =
  id' :: int

record ProductResponse =
  id' :: int
  name :: string
  quantity :: int
  price :: real
  photo :: string
  author :: string

text \<open>The call object that the gRPC server passes to an implementation: \<^verbatim>\<open>payload.request\<close>.\<close>

record 'a call =
  request :: 'a

text \<open>
  \<^verbatim>\<open>SearchProductByID: (payload, callback) => { callback(null, products.find(...)) }\<close>.
  The result is the pair of arguments given to the callback: the error (always
  \<^verbatim>\<open>null\<close>, \<open>None\<close>) and the product found, where \<open>None\<close> is the
  \<^verbatim>\<open>undefined\<close> that \<^verbatim>\<open>Array.prototype.find\<close> returns when no element matches.
  The catalog \<open>products\<close> (the list read from \<^verbatim>\<open>products.json\<close>) is a parameter.
\<close>

definition SearchProductByID ::
  "ProductResponse list \<Rightarrow> Payload call \<Rightarrow> 'e option \<times> ProductResponse option" where
  "SearchProductByID products payload =
     (None, find (\<lambda>product. ProductResponse.id' product = Payload.id' (request payload)) products)"

text \<open>
  \<^verbatim>\<open>app.get('/product/:id', ...)\<close>, the route that the README adds to the controller;
  the argument \<open>id_arg\<close> is \<^verbatim>\<open>req.params.id\<close>.
\<close>

definition get_product :: "'e backends \<Rightarrow> string \<Rightarrow> 'e world \<Rightarrow> 'e outcome" where
  "get_product backends id_arg w =
     (case invoke backends (inventory_SearchProductByID (JObj [(''id'', JStr id_arg)])) w of
        ((err, product), w') \<Rightarrow>
          (case err of
             Some e \<Rightarrow>
               (Inr (send (JObj [(''error'', JStr ''something failed :('')]) (status 500 res)),
                console_error e w')
           | None \<Rightarrow> (Inr (json product res), w')))"

text \<open>A product as the JavaScript object that the client stub decodes from a reply.\<close>

definition product_object :: "ProductResponse \<Rightarrow> js" where
  "product_object p =
     JObj [(''id'', JNum (of_int (ProductResponse.id' p))), (''name'', JStr (name p)),
           (''quantity'', JNum (of_int (quantity p))), (''price'', JNum (price p)),
           (''photo'', JStr (photo p)), (''author'', JStr (author p))]"

text \<open>A catalog of three books with the ids 1, 2 and 3, for the concrete cases below.\<close>

definition three_books :: "ProductResponse list" where
  "three_books =
     [\<lparr>id' = 1, name = ''Book A'', quantity = 5, price = 10, photo = ''/img/a.png'',
        author = ''Author A''\<rparr>,
      \<lparr>id' = 2, name = ''Book B'', quantity = 2, price = 20, photo = ''/img/b.png'',
        author = ''Author B''\<rparr>,
      \<lparr>id' = 3, name = ''Book C'', quantity = 1, price = 15, photo = ''/img/c.png'',
        author = ''Author C''\<rparr>]"

section \<open>The front-end script\<close>

text \<open>
  What the browser gives to the script: the bindings of the global scope, the conversion of
  a value to a string (string concatenation and template literals), \<^verbatim>\<open>fetch\<close> and
  \<^verbatim>\<open>Number.prototype.toFixed\<close>. A fetch is rejected or fulfilled with a response
  \<^verbatim>\<open>data\<close>, whose \<^verbatim>\<open>data.json()\<close> is in turn rejected or fulfilled.
\<close>

record fetch_response =
  ok :: bool
  statusText :: string
  json_body :: "js_error + js"

record browser =
  globals :: "string \<rightharpoonup> js"
  ToString :: "js \<Rightarrow> string"
  fetch :: "string \<Rightarrow> js_error + fetch_response"
  toFixed :: "real \<Rightarrow> nat \<Rightarrow> string"

record element =
  tagName :: string
  className :: string
  innerHTML :: string

definition createElement :: "string \<Rightarrow> element" where
  "createElement tag = \<lparr>tagName = tag, className = [], innerHTML = []\<rparr>"

text \<open>\<^verbatim>\<open>function newBook(book)\<close>: the template literal, line by line.\<close>

definition newBook :: "browser \<Rightarrow> ProductResponse \<Rightarrow> element" where
  \<open>newBook browser book =
     (createElement ''div'')
       \<lparr>className := ''column is-4'',
        innerHTML :=
           ''\<newline>''
           @ ''        <div class="card is-shady">\<newline>''
           @ ''            <div class="card-image">\<newline>''
           @ ''                <figure class="image is-4by3">\<newline>''
           @ ''                    <img\<newline>''
           @ ''                        src="''
           @ photo book
           @ ''"\<newline>''
           @ ''                        alt="''
           @ name book
           @ ''"\<newline>''
           @ ''                        class="modal-button"\<newline>''
           @ ''                    />\<newline>''
           @ ''                </figure>\<newline>''
           @ ''            </div>\<newline>''
           @ ''            <div class="card-content">\<newline>''
           @ ''                <div class="content book" data-id="''
           @ ToString browser (JNum (of_int (ProductResponse.id' book)))
           @ ''">\<newline>''
           @ ''                    <div class="book-meta">\<newline>''
           @ ''                        <p class="is-size-4">US$ ''
           @ toFixed browser (price book) 2
           @ ''</p>\<newline>''
           @ ''                        <p class="is-size-6">''
           @ ''Available in stock: 5''
           @ ''</p>\<newline>''
           @ ''                        <h4 class="is-size-3 title">''
           @ name book
           @ ''</h4>\<newline>''
           @ ''                        <p class="subtitle">''
           @ author book
           @ ''</p>\<newline>''
           @ ''                    </div>\<newline>''
           @ ''                    <div class="field has-addons">\<newline>''
           @ ''                        <div class="control">\<newline>''
           @ ''                            <input class="input" type="text" placeholder="Enter the ZIP code" />\<newline>''
           @ ''                        </div>\<newline>''
           @ ''                        <div class="control">\<newline>''
           @ ''                            <a class="button button-shipping is-info" data-id="''
           @ ToString browser (JNum (of_int (ProductResponse.id' book)))
           @ ''"> Calculate Shipping </a>\<newline>''
           @ ''                        </div>\<newline>''
           @ ''                    </div>\<newline>''
           @ ''                    <button class="button button-buy is-success is-fullwidth">Buy</button>\<newline>''
           @ ''                </div>\<newline>''
           @ ''            </div>\<newline>''
           @ ''        </div>''\<rparr>\<close>

text \<open>
  The effects of the script on the page: the URLs fetched, the dialogs opened with
  \<^verbatim>\<open>swal\<close>, and what \<^verbatim>\<open>console.error\<close> printed. A promise is rejected with an
  error object or with the status text that the first callback throws.
\<close>

datatype reason =
    Error js_error
  | Text string

record page =
  fetched :: "string list"
  dialogs :: "(string \<times> string \<times> string) list"
  printed :: "reason list"

text \<open>The three callbacks of the promise chain of \<^verbatim>\<open>calculateShipping\<close>.\<close>

definition shipping_response :: "fetch_response \<Rightarrow> reason + js" where
  "shipping_response data =
     (if ok data then (case json_body data of Inl e \<Rightarrow> Inl (Error e) | Inr v \<Rightarrow> Inr v)
      else Inl (Text (statusText data)))"

definition shipping_success :: "browser \<Rightarrow> js \<Rightarrow> page \<Rightarrow> reason + page" where
  "shipping_success browser data pg =
     (case get_property data ''value'' of
        Inl e \<Rightarrow> Inl (Error e)
      | Inr (JNum x) \<Rightarrow>
          Inr (pg\<lparr>dialogs := dialogs pg @
            [(''shipping'', ''The shipping cost is: US$'' @ toFixed browser x 2, ''success'')]\<rparr>)
      | Inr _ \<Rightarrow> Inl (Error (TypeError ''toFixed'')))"

definition shipping_failure :: "reason \<Rightarrow> page \<Rightarrow> page" where
  "shipping_failure err pg =
     pg\<lparr>dialogs := dialogs pg @ [(''error'', ''error while accessing shipping'', ''error'')],
        printed := printed pg @ [err]\<rparr>"

text \<open>
  \<^verbatim>\<open>function calculateShipping(id, cep)\<close>. The argument of \<^verbatim>\<open>fetch\<close> is evaluated
  first: the name \<^verbatim>\<open>zipcode\<close> is looked up in the scope of the function, which binds
  the parameters \<^verbatim>\<open>id\<close> (here \<open>id_arg\<close>) and \<^verbatim>\<open>cep\<close>, then in the global scope. When no scope binds
  it the function throws a \<^verbatim>\<open>ReferenceError\<close> (\<open>Some\<close> in the first component)
  and nothing else happens. Otherwise the request is issued and the promise chain runs.
  The names \<^verbatim>\<open>fetch\<close>, \<^verbatim>\<open>swal\<close> and \<^verbatim>\<open>console\<close> are taken to be bound,
  as they are in a browser that has loaded the page's libraries.
\<close>

definition calculateShipping :: "browser \<Rightarrow> js \<Rightarrow> js \<Rightarrow> page \<Rightarrow> js_error option \<times> page" where
  "calculateShipping browser id_arg cep pg =
     (case (globals browser ++ [''id'' \<mapsto> id_arg, ''cep'' \<mapsto> cep]) ''zipcode'' of
        None \<Rightarrow> (Some (ReferenceError ''zipcode''), pg)
      | Some zipcode \<Rightarrow>
          (let url = ''http://localhost:3000/shipping/'' @ ToString browser zipcode;
               pg' = pg\<lparr>fetched := fetched pg @ [url]\<rparr>;
               settled =
                 (case fetch browser url of
                    Inl e \<Rightarrow> Inl (Error e)
                  | Inr data \<Rightarrow>
                      (case shipping_response data of
                         Inl err \<Rightarrow> Inl err
                       | Inr v \<Rightarrow> shipping_success browser v pg'))
           in (None, case settled of Inl err \<Rightarrow> shipping_failure err pg' | Inr pg'' \<Rightarrow> pg'')))"

text \<open>
  A browser for the concrete cases below: its global scope binds what the script and the
  page provide (none of them is \<^verbatim>\<open>zipcode\<close>), and every fetch is rejected.
\<close>

definition offline_browser :: browser where
  "offline_browser =
     \<lparr>globals = [''newBook'' \<mapsto> JObj [], ''calculateShipping'' \<mapsto> JObj [],
                 ''document'' \<mapsto> JObj [], ''swal'' \<mapsto> JObj []],
      ToString = (\<lambda>v. case v of JStr s \<Rightarrow> s | _ \<Rightarrow> ''[object]''),
      fetch = (\<lambda>url. Inl (NetworkError url)),
      toFixed = (\<lambda>x n. ''0.00'')\<rparr>"

text \<open>
  The click listener of a shipping button: it reads the attribute and the input field into
  its own constants \<^verbatim>\<open>id\<close> and \<^verbatim>\<open>zipcode\<close> and passes them as arguments.
\<close>

definition shipping_click :: "browser \<Rightarrow> string \<Rightarrow> string \<Rightarrow> page \<Rightarrow> js_error option \<times> page" where
  "shipping_click browser id_arg zipcode pg =
     calculateShipping browser (JStr id_arg) (JStr zipcode) pg"

section \<open>Properties of the controller\<close>

lemma get_products_failure:
  assumes "backends (inventory_SearchAllProducts JNull) = (Some e, d)"
  shows "get_products backends w =
           (Inr something_failed,
            w\<lparr>console := console w @ [e],
              calls := calls w @ [inventory_SearchAllProducts JNull]\<rparr>)"
  using assms
  by (simp add: get_products_def invoke_def console_error_def something_failed_def
      send_def status_def res_def)

lemma get_shipping_failure:
  assumes "backends (shipping_GetShippingRate (JObj [(''zipcode'', JStr z)])) = (Some e, d)"
  shows "get_shipping backends z w =
           (Inr something_failed,
            w\<lparr>console := console w @ [e],
              calls := calls w @ [shipping_GetShippingRate (JObj [(''zipcode'', JStr z)])]\<rparr>)"
  using assms
  by (simp add: get_shipping_def invoke_def console_error_def something_failed_def
      send_def status_def res_def)

lemma app_failure:
  assumes "backends (backend_call r) = (Some e, d)"
  shows "app backends r w =
           (Inr something_failed,
            w\<lparr>console := console w @ [e], calls := calls w @ [backend_call r]\<rparr>)"
  using assms by (cases r) (simp_all add: get_products_failure get_shipping_failure)

text \<open>
  Claim C1. Whenever the backend call of a request to \<^verbatim>\<open>/products\<close> or to
  \<^verbatim>\<open>/shipping/:zipcode\<close> fails with an error \<open>e\<close>, the response is the one generic
  error: status 500 with the body \<^verbatim>\<open>{error: 'something failed :('}\<close>. The response is
  the same for every \<open>e\<close> and every \<open>d\<close>; the error goes to \<^verbatim>\<open>console.error\<close>
  and nowhere else.
\<close>

theorem backend_failure_generic_error:
  assumes "backends (backend_call r) = (Some e, d)"
  shows "fst (app backends r w) =
           Inr \<lparr>statusCode = 500, body = Some (JObj [(''error'', JStr ''something failed :('')])\<rparr>
         \<and> console (snd (app backends r w)) = console w @ [e]"
  using assms app_failure [of backends r e d w] by (simp add: something_failed_def)

theorem backend_failure_generic_error_witness:
  "replying (Some ''14 UNAVAILABLE: No connection established'', JUndefined)
       (backend_call (GET_shipping ''30130-000''))
     = (Some ''14 UNAVAILABLE: No connection established'', JUndefined)
   \<and> fst (app (replying (Some ''14 UNAVAILABLE: No connection established'', JUndefined))
             (GET_shipping ''30130-000'') \<lparr>console = [], calls = []\<rparr>)
     = Inr \<lparr>statusCode = 500, body = Some (JObj [(''error'', JStr ''something failed :('')])\<rparr>
   \<and> console (snd (app (replying (Some ''14 UNAVAILABLE: No connection established'', JUndefined))
             (GET_shipping ''30130-000'') \<lparr>console = [], calls = []\<rparr>))
     = [''14 UNAVAILABLE: No connection established'']
   \<and> replying (Some ''13 INTERNAL'', JUndefined) (backend_call GET_products)
     = (Some ''13 INTERNAL'', JUndefined)
   \<and> fst (app (replying (Some ''13 INTERNAL'', JUndefined)) GET_products
             \<lparr>console = [''earlier''], calls = []\<rparr>)
     = Inr \<lparr>statusCode = 500, body = Some (JObj [(''error'', JStr ''something failed :('')])\<rparr>
   \<and> console (snd (app (replying (Some ''13 INTERNAL'', JUndefined)) GET_products
             \<lparr>console = [''earlier''], calls = []\<rparr>))
     = [''earlier'', ''13 INTERNAL'']"
proof -
  have h1: "replying (Some ''14 UNAVAILABLE: No connection established'', JUndefined)
       (backend_call (GET_shipping ''30130-000''))
     = (Some ''14 UNAVAILABLE: No connection established'', JUndefined)"
    by (simp add: replying_def)
  have h2: "replying (Some ''13 INTERNAL'', JUndefined) (backend_call GET_products)
     = (Some ''13 INTERNAL'', JUndefined)"
    by (simp add: replying_def)
  show ?thesis
    using h1 h2
      backend_failure_generic_error
        [of "replying (Some ''14 UNAVAILABLE: No connection established'', JUndefined)"
            "GET_shipping ''30130-000''" "''14 UNAVAILABLE: No connection established''"
            JUndefined "\<lparr>console = [], calls = []\<rparr>"]
      backend_failure_generic_error
        [of "replying (Some ''13 INTERNAL'', JUndefined)" GET_products "''13 INTERNAL''"
            JUndefined "\<lparr>console = [''earlier''], calls = []\<rparr>"]
    by simp
qed

text \<open>
  Claim C2. When the shipping backend replies without an error and the reply carries the
  cost \<open>v\<close> in its field \<^verbatim>\<open>value\<close>, the response to
  \<^verbatim>\<open>GET /shipping/p\<close> is 200 with exactly the object \<^verbatim>\<open>{cep: p, value: v}\<close>:
  \<^verbatim>\<open>cep\<close> is the postal code of the request, whatever else the reply holds.
\<close>

theorem shipping_quote_echoes_zipcode:
  assumes "backends (shipping_GetShippingRate (JObj [(''zipcode'', JStr p)])) = (None, data)"
    and "get_property data ''value'' = Inr (JNum v)"
  shows "fst (get_shipping backends p w) =
           Inr \<lparr>statusCode = 200, body = Some (JObj [(''cep'', JStr p), (''value'', JNum v)])\<rparr>"
  using assms by (simp add: get_shipping_def invoke_def json_def res_def)

theorem shipping_quote_echoes_zipcode_witness:
  "replying (None, JObj [(''value'', JNum 42.5), (''cep'', JStr ''00000-000'')])
       (shipping_GetShippingRate (JObj [(''zipcode'', JStr ''30130-000'')]))
     = (None :: string option, JObj [(''value'', JNum 42.5), (''cep'', JStr ''00000-000'')])
   \<and> get_property (JObj [(''value'', JNum 42.5), (''cep'', JStr ''00000-000'')]) ''value''
     = Inr (JNum 42.5)
   \<and> fst (get_shipping
             (replying (None :: string option,
                JObj [(''value'', JNum 42.5), (''cep'', JStr ''00000-000'')]))
             ''30130-000'' \<lparr>console = [], calls = []\<rparr>)
     = Inr \<lparr>statusCode = 200,
            body = Some (JObj [(''cep'', JStr ''30130-000''), (''value'', JNum 42.5)])\<rparr>"
proof -
  let ?data = "JObj [(''value'', JNum 42.5), (''cep'', JStr ''00000-000'')]"
  have h1: "replying (None, ?data)
       (shipping_GetShippingRate (JObj [(''zipcode'', JStr ''30130-000'')]))
     = (None :: string option, ?data)"
    by (simp add: replying_def)
  have h2: "get_property ?data ''value'' = Inr (JNum 42.5)"
    by simp
  show ?thesis
    using h1 h2
      shipping_quote_echoes_zipcode
        [of "replying (None :: string option, ?data)" "''30130-000''" ?data "42.5"
            "\<lparr>console = [], calls = []\<rparr>"]
    by simp
qed

section \<open>Properties of the inventory service and of its route\<close>

text \<open>
  Claim C3, as the code has it. The handler of \<^verbatim>\<open>/product/:id\<close> has two branches and
  no not-found response. For every id, in the catalog or not, and whatever the inventory
  stub passes to the callback: on an error the response is the generic 500, otherwise it
  is a 200 whose body is the value passed. Its status is never 404.
\<close>

theorem get_product_no_not_found:
  "fst (get_product backends id_arg w) =
     Inr (case fst (backends (inventory_SearchProductByID (JObj [(''id'', JStr id_arg)]))) of
            Some e \<Rightarrow>
              \<lparr>statusCode = 500, body = Some (JObj [(''error'', JStr ''something failed :('')])\<rparr>
          | None \<Rightarrow>
              \<lparr>statusCode = 200,
               body = Some (snd (backends
                 (inventory_SearchProductByID (JObj [(''id'', JStr id_arg)]))))\<rparr>)
   \<and> (\<exists>r. fst (get_product backends id_arg w) = Inr r
          \<and> (statusCode r = 200 \<or> statusCode r = 500) \<and> statusCode r \<noteq> 404)"
  by (auto simp: get_product_def invoke_def json_def send_def status_def res_def
      split: prod.splits option.splits)

text \<open>
  The claim as stated asks for a 404 for the id 999, which no product has. The service
  has no product to send, the stub reports an error, and the response is the generic 500.
\<close>

theorem get_product_999_counterexample:
  "fst (get_product (replying (Some ''13 INTERNAL'', JUndefined)) ''999''
          \<lparr>console = [], calls = []\<rparr>)
     = Inr \<lparr>statusCode = 500, body = Some (JObj [(''error'', JStr ''something failed :('')])\<rparr>"
  by (simp add: get_product_def invoke_def send_def status_def res_def replying_def)

lemma find_first_match:
  "find P xs = Some x \<Longrightarrow> \<exists>pre post. xs = pre @ x # post \<and> P x \<and> (\<forall>y\<in>set pre. \<not> P y)"
proof (induction xs)
  case Nil
  then show ?case by simp
next
  case (Cons a xs)
  show ?case
  proof (cases "P a")
    case True
    with Cons.prems have "x = a" by simp
    with True have "a # xs = [] @ x # xs \<and> P x \<and> (\<forall>y\<in>set []. \<not> P y)" by simp
    then show ?thesis by blast
  next
    case False
    with Cons.prems have "find P xs = Some x" by simp
    from Cons.IH [OF this] obtain pre post
      where "xs = pre @ x # post" "P x" "\<forall>y\<in>set pre. \<not> P y" by blast
    with False have "a # xs = (a # pre) @ x # post \<and> P x \<and> (\<forall>y\<in>set (a # pre). \<not> P y)"
      by simp
    then show ?thesis by blast
  qed
qed

text \<open>
  Claim C4, as the code has it. For an id that some product of the catalog has,
  \<^verbatim>\<open>SearchProductByID\<close> calls back with no error and the first product in load order
  with that id. For an id that no product has, it calls back with no error and
  \<^verbatim>\<open>undefined\<close>: no not-found condition is signalled.
\<close>

theorem SearchProductByID_first_match:
  fixes products :: "ProductResponse list"
  assumes "Payload.id' (request payload) = i"
  shows "(i \<in> ProductResponse.id' ` set products \<longrightarrow>
            (\<exists>pre p post. products = pre @ p # post \<and> i \<notin> ProductResponse.id' ` set pre
               \<and> ProductResponse.id' p = i
               \<and> SearchProductByID products payload = (None, Some p)))
       \<and> (i \<notin> ProductResponse.id' ` set products \<longrightarrow>
            SearchProductByID products payload = (None, None))"
proof (intro conjI impI)
  assume "i \<in> ProductResponse.id' ` set products"
  then have "find (\<lambda>product. ProductResponse.id' product = i) products \<noteq> None"
    by (auto simp: find_None_iff)
  then obtain p where p: "find (\<lambda>product. ProductResponse.id' product = i) products = Some p"
    by (cases "find (\<lambda>product. ProductResponse.id' product = i) products") simp_all
  from find_first_match [OF p] obtain pre post
    where split: "products = pre @ p # post" and hit: "ProductResponse.id' p = i"
      and miss: "\<forall>y\<in>set pre. ProductResponse.id' y \<noteq> i"
    by blast
  from miss have miss': "i \<notin> ProductResponse.id' ` set pre"
    by auto
  from p assms have found: "SearchProductByID products payload = (None, Some p)"
    by (simp add: SearchProductByID_def)
  from split miss' hit found
  show "\<exists>pre p post. products = pre @ p # post \<and> i \<notin> ProductResponse.id' ` set pre
               \<and> ProductResponse.id' p = i
               \<and> SearchProductByID products payload = (None, Some p)"
    by (intro exI [of _ pre] exI [of _ p] exI [of _ post]) simp
next
  assume "i \<notin> ProductResponse.id' ` set products"
  then have "find (\<lambda>product. ProductResponse.id' product = i) products = None"
    by (auto simp: find_None_iff)
  with assms show "SearchProductByID products payload = (None, None)"
    by (simp add: SearchProductByID_def)
qed

theorem SearchProductByID_first_match_witness:
  "Payload.id' (request \<lparr>request = \<lparr>Payload.id' = 2\<rparr>\<rparr>) = 2
   \<and> 2 \<in> ProductResponse.id' ` set three_books
   \<and> (\<exists>pre p post. three_books = pre @ p # post \<and> 2 \<notin> ProductResponse.id' ` set pre
         \<and> ProductResponse.id' p = 2
         \<and> SearchProductByID three_books \<lparr>request = \<lparr>Payload.id' = 2\<rparr>\<rparr> = (None :: unit option, Some p))
   \<and> Payload.id' (request \<lparr>request = \<lparr>Payload.id' = 999\<rparr>\<rparr>) = 999
   \<and> 999 \<notin> ProductResponse.id' ` set three_books
   \<and> SearchProductByID three_books \<lparr>request = \<lparr>Payload.id' = 999\<rparr>\<rparr> = (None :: unit option, None)"
proof -
  have h1: "Payload.id' (request \<lparr>request = \<lparr>Payload.id' = 2\<rparr>\<rparr>) = 2" by simp
  have h2: "2 \<in> ProductResponse.id' ` set three_books" by (simp add: three_books_def)
  have h3: "Payload.id' (request \<lparr>request = \<lparr>Payload.id' = 999\<rparr>\<rparr>) = 999" by simp
  have h4: "999 \<notin> ProductResponse.id' ` set three_books" by (simp add: three_books_def)
  note present = SearchProductByID_first_match [OF h1, of three_books, THEN conjunct1, rule_format, OF h2]
  note absent = SearchProductByID_first_match [OF h3, of three_books, THEN conjunct2, rule_format, OF h4]
  from h1 h2 h3 h4 present absent show ?thesis
    by (intro conjI)
qed

text \<open>
  The claim as stated asks for a not-found signal for the absent id 999; the callback gets
  a null error and \<^verbatim>\<open>undefined\<close>.
\<close>

theorem SearchProductByID_absent_counterexample:
  "999 \<notin> ProductResponse.id' ` set three_books
   \<and> SearchProductByID three_books \<lparr>request = \<lparr>Payload.id' = 999\<rparr>\<rparr> = (None :: unit option, None)"
  by (simp add: SearchProductByID_def three_books_def)

section \<open>Further properties of the controller\<close>

text \<open>
  Claim C5. When the inventory backend replies without an error, the response to
  \<^verbatim>\<open>GET /products\<close> is 200 and its body is the value of the field \<^verbatim>\<open>products\<close>
  of the reply, unchanged: the same elements in the same order.
\<close>

theorem products_passed_through:
  assumes "backends (inventory_SearchAllProducts JNull) = (None, data)"
    and "get_property data ''products'' = Inr products"
  shows "fst (get_products backends w) = Inr \<lparr>statusCode = 200, body = Some products\<rparr>"
  using assms by (simp add: get_products_def invoke_def json_def res_def)

theorem products_passed_through_witness:
  "replying (None, JObj [(''products'', JArr (map product_object three_books))])
       (inventory_SearchAllProducts JNull)
     = (None :: string option, JObj [(''products'', JArr (map product_object three_books))])
   \<and> get_property (JObj [(''products'', JArr (map product_object three_books))]) ''products''
     = Inr (JArr (map product_object three_books))
   \<and> fst (get_products
             (replying (None :: string option,
                JObj [(''products'', JArr (map product_object three_books))]))
             \<lparr>console = [], calls = []\<rparr>)
     = Inr \<lparr>statusCode = 200, body = Some (JArr (map product_object three_books))\<rparr>
   \<and> length (map product_object three_books) = 3"
proof -
  let ?data = "JObj [(''products'', JArr (map product_object three_books))]"
  have h1: "replying (None, ?data) (inventory_SearchAllProducts JNull)
     = (None :: string option, ?data)"
    by (simp add: replying_def)
  have h2: "get_property ?data ''products'' = Inr (JArr (map product_object three_books))"
    by simp
  have h3: "length (map product_object three_books) = 3"
    by (simp add: three_books_def)
  show ?thesis
    using h1 h2 h3
      products_passed_through
        [of "replying (None :: string option, ?data)" ?data
            "JArr (map product_object three_books)" "\<lparr>console = [], calls = []\<rparr>"]
    by simp
qed

text \<open>
  Claim C6. The handler of every request issues exactly one backend call:
  \<^verbatim>\<open>SearchAllProducts(null)\<close> for \<^verbatim>\<open>/products\<close> and
  \<^verbatim>\<open>GetShippingRate({zipcode})\<close> for \<^verbatim>\<open>/shipping/:zipcode\<close>, whatever the reply is.
\<close>

theorem one_backend_call_per_request:
  "calls (snd (app backends r w)) = calls w @ [backend_call r]"
  by (cases r)
    (auto simp: get_products_def get_shipping_def invoke_def console_error_def
      split: prod.splits option.splits sum.splits)

text \<open>
  Claim C8. What a handler does depends on the request and on the reply to its backend
  call only: for two runs with the same request and the same reply, in any two states that
  earlier requests left behind, the responses are equal, and so is what each run prints
  and the call it issues.
\<close>

theorem gateway_stateless:
  assumes "backends1 (backend_call r) = backends2 (backend_call r)"
  shows "fst (app backends1 r w1) = fst (app backends2 r w2)
       \<and> drop (length (console w1)) (console (snd (app backends1 r w1)))
         = drop (length (console w2)) (console (snd (app backends2 r w2)))
       \<and> drop (length (calls w1)) (calls (snd (app backends1 r w1)))
         = drop (length (calls w2)) (calls (snd (app backends2 r w2)))"
  using assms
  by (cases r)
    (auto simp: get_products_def get_shipping_def invoke_def console_error_def
      split: prod.splits option.splits sum.splits)

theorem gateway_stateless_witness:
  "replying (None :: string option, JObj [(''value'', JNum 12)])
       (backend_call (GET_shipping ''30130-000''))
     = replying (None, JObj [(''value'', JNum 12)]) (backend_call (GET_shipping ''30130-000''))
   \<and> fst (app (replying (None :: string option, JObj [(''value'', JNum 12)]))
             (GET_shipping ''30130-000'') \<lparr>console = [], calls = []\<rparr>)
     = fst (app (replying (None, JObj [(''value'', JNum 12)]))
             (GET_shipping ''30130-000'')
             \<lparr>console = [''earlier''], calls = [inventory_SearchAllProducts JNull]\<rparr>)"
  using gateway_stateless
    [of "replying (None :: string option, JObj [(''value'', JNum 12)])"
        "GET_shipping ''30130-000''"
        "replying (None :: string option, JObj [(''value'', JNum 12)])"
        "\<lparr>console = [], calls = []\<rparr>"
        "\<lparr>console = [''earlier''], calls = [inventory_SearchAllProducts JNull]\<rparr>"]
  by simp

section \<open>Properties of the front-end\<close>

lemma zipcode_lookup:
  "(globals browser ++ [''id'' \<mapsto> id_arg, ''cep'' \<mapsto> cep]) ''zipcode'' = globals browser ''zipcode''"
  by (simp add: map_add_def)

text \<open>
  Claim C9. \<^verbatim>\<open>calculateShipping\<close> does not depend on its arguments, and when the global
  scope does not bind \<^verbatim>\<open>zipcode\<close> every call throws a \<^verbatim>\<open>ReferenceError\<close> and
  leaves the page as it was: no request is issued, no dialog is opened.
\<close>

theorem calculateShipping_reference_error:
  "calculateShipping browser id_arg cep pg = calculateShipping browser id_arg2 cep2 pg
   \<and> (globals browser ''zipcode'' = None \<longrightarrow>
        calculateShipping browser id_arg cep pg = (Some (ReferenceError ''zipcode''), pg))"
  by (simp add: calculateShipping_def zipcode_lookup)

theorem calculateShipping_reference_error_witness:
  "globals offline_browser ''zipcode'' = None
   \<and> calculateShipping offline_browser (JStr ''1'') (JStr ''30130-000'')
        \<lparr>fetched = [], dialogs = [], printed = []\<rparr>
     = (Some (ReferenceError ''zipcode''), \<lparr>fetched = [], dialogs = [], printed = []\<rparr>)
   \<and> shipping_click offline_browser ''2'' ''01310-100''
        \<lparr>fetched = [], dialogs = [], printed = []\<rparr>
     = (Some (ReferenceError ''zipcode''), \<lparr>fetched = [], dialogs = [], printed = []\<rparr>)"
proof -
  have h: "globals offline_browser ''zipcode'' = None"
    by (simp add: offline_browser_def)
  show ?thesis
    using h
      calculateShipping_reference_error
        [of offline_browser "JStr ''1''" "JStr ''30130-000''"
            "\<lparr>fetched = [], dialogs = [], printed = []\<rparr>" "JStr ''1''" "JStr ''30130-000''"]
      calculateShipping_reference_error
        [of offline_browser "JStr ''2''" "JStr ''01310-100''"
            "\<lparr>fetched = [], dialogs = [], printed = []\<rparr>" "JStr ''2''" "JStr ''01310-100''"]
    by (simp add: shipping_click_def)
qed

lemma contains_here: "\<exists>pre post. m @ ss = pre @ m @ post"
proof -
  have "m @ ss = [] @ m @ ss" by simp
  then show ?thesis by blast
qed

lemma contains_later:
  assumes "\<exists>pre post. ys = pre @ m @ post"
  shows "\<exists>pre post. xs @ ys = pre @ m @ post"
proof -
  from assms obtain pre post where "ys = pre @ m @ post" by blast
  then have "xs @ ys = (xs @ pre) @ m @ post" by simp
  then show ?thesis by blast
qed

lemma newBook_quantity: "newBook browser (book\<lparr>quantity := q\<rparr>) = newBook browser book"
  by (simp add: newBook_def)

lemma newBook_stock_text:
  "\<exists>pre post. innerHTML (newBook browser book) = pre @ ''Available in stock: 5'' @ post"
  unfolding newBook_def createElement_def
  apply (simp only: element.simps)
  apply (rule contains_here | rule contains_later)+
  done

text \<open>
  Claim C10. Two books that differ in \<^verbatim>\<open>quantity\<close> only get the same element from
  \<^verbatim>\<open>newBook\<close>, and its markup holds the fixed text \<^verbatim>\<open>Available in stock: 5\<close>.
\<close>

theorem newBook_ignores_quantity:
  "newBook browser (book\<lparr>quantity := q\<rparr>) = newBook browser book
   \<and> (\<exists>pre post. innerHTML (newBook browser book) = pre @ ''Available in stock: 5'' @ post)"
  using newBook_quantity newBook_stock_text by blast

end
